theory Spec2Isabelle
  imports Complex_Main
begin

section \<open>Strings and the regular expressions of the service\<close>

text \<open>
  The relevance engine lives in the class \<open>AIService\<close> (the second file of
  \<^verbatim>\<open>src/src/index.ts\<close>). JavaScript strings are modelled as \<open>string\<close>; the model
  covers ASCII text: \<open>toLowerCase\<close> maps \<open>A..Z\<close> to \<open>a..z\<close> and leaves every other
  character alone, \<open>\w\<close> is \<open>[A-Za-z0-9_]\<close> and \<open>\s\<close> is tab, line feed, vertical tab,
  form feed, carriage return and space.
\<close>

definition toLowerChar :: "char \<Rightarrow> char" where
  "toLowerChar c =
     (let n = (of_char c :: nat) in if 65 \<le> n \<and> n \<le> 90 then char_of (n + 32) else c)"

definition toLowerCase :: "string \<Rightarrow> string" where
  "toLowerCase s = map toLowerChar s"

definition isWordChar :: "char \<Rightarrow> bool" where
  "isWordChar c =
     (let n = (of_char c :: nat)
      in (48 \<le> n \<and> n \<le> 57) \<or> (65 \<le> n \<and> n \<le> 90) \<or> n = 95 \<or> (97 \<le> n \<and> n \<le> 122))"

definition isSpaceChar :: "char \<Rightarrow> bool" where
  "isSpaceChar c = (let n = (of_char c :: nat) in (9 \<le> n \<and> n \<le> 13) \<or> n = 32)"

text \<open>\<open>s.startsWith(p)\<close> and \<open>s.includes(p)\<close>.\<close>

definition startsWith :: "string \<Rightarrow> string \<Rightarrow> bool" where
  "startsWith s p = (take (length p) s = p)"

fun includes_str :: "string \<Rightarrow> string \<Rightarrow> bool" where
  "includes_str [] p = (p = [])"
| "includes_str (c # cs) p = (startsWith (c # cs) p \<or> includes_str cs p)"

text \<open>
  \<open>s.match(/"([^"]+)"/g)?.map(phrase => phrase.slice(1, -1)) || []\<close>: the bodies of the
  successive leftmost matches. A quote followed at once by a quote matches nothing at
  that position and the search goes on from the second quote; an opening quote with no
  closing quote matches nothing.
\<close>

function quotedMatches :: "string \<Rightarrow> string list" where
  "quotedMatches [] = []"
| "quotedMatches (c # cs) =
     (if c = CHR 0x22 then
        (let body = takeWhile (\<lambda>d. d \<noteq> CHR 0x22) cs;
             rest = dropWhile (\<lambda>d. d \<noteq> CHR 0x22) cs
         in if rest = [] then []
            else if body = [] then quotedMatches rest
            else body # quotedMatches (tl rest))
      else quotedMatches cs)"
  by pat_completeness auto
termination
proof (relation "measure length", goal_cases)
  case 1
  show ?case by simp
next
  case (2 c cs body rest)
  have "length (dropWhile (\<lambda>d. d \<noteq> CHR 0x22) cs) \<le> length cs"
    by (rule length_dropWhile_le)
  with 2 show ?case by simp
next
  case (3 c cs body rest)
  have "length (dropWhile (\<lambda>d. d \<noteq> CHR 0x22) cs) \<le> length cs"
    by (rule length_dropWhile_le)
  with 3 show ?case by simp
next
  case (4 c cs)
  show ?case by simp
qed

text \<open>
  \<open>s.match(/\b\w+\b/g) || []\<close>: the maximal runs of word characters, left to right.
  \<open>maximalRuns P\<close> cuts a string into its maximal runs of characters that satisfy \<open>P\<close>.
\<close>

function maximalRuns :: "(char \<Rightarrow> bool) \<Rightarrow> string \<Rightarrow> string list" where
  "maximalRuns P [] = []"
| "maximalRuns P (c # cs) =
     (if P c
      then (c # takeWhile P cs) # maximalRuns P (dropWhile P cs)
      else maximalRuns P cs)"
  by pat_completeness auto
termination
proof (relation "measure (\<lambda>(P, s). length s)", goal_cases)
  case 1
  show ?case by simp
next
  case (2 P c cs)
  have "length (dropWhile P cs) \<le> length cs"
    by (rule length_dropWhile_le)
  then show ?case by simp
next
  case (3 P c cs)
  show ?case by simp
qed

definition wordMatches :: "string \<Rightarrow> string list" where
  "wordMatches s = maximalRuns isWordChar s"

text \<open>
  \<open>(text.match(new RegExp(escaped(term), "gi")) || []).length\<close> for a term and a text
  that are both lower case: the number of successive non-overlapping occurrences of the
  literal term. The empty pattern matches once at every index, the end included.
\<close>

function countMatches :: "string \<Rightarrow> string \<Rightarrow> nat" where
  "countMatches term [] = (if term = [] then 1 else 0)"
| "countMatches term (c # cs) =
     (if term = [] then Suc (countMatches term cs)
      else if startsWith (c # cs) term
      then Suc (countMatches term (drop (length term) (c # cs)))
      else countMatches term cs)"
  by pat_completeness auto
termination
  by (relation "measure (\<lambda>(term, s). length s)") auto

text \<open>
  \<open>new RegExp(`\\b${escaped(term)}\\b`, "gi").test(text)\<close>: some occurrence of the
  term has a word boundary on both sides. \<open>wordBoundaryAt prev s\<close> is \<open>\b\<close> between the
  character \<open>prev\<close> (\<open>None\<close> at the start of the text) and the head of \<open>s\<close>.
\<close>

definition wordBoundaryAt :: "char option \<Rightarrow> string \<Rightarrow> bool" where
  "wordBoundaryAt prev s =
     ((case prev of None \<Rightarrow> False | Some p \<Rightarrow> isWordChar p)
      \<noteq> (case s of [] \<Rightarrow> False | c # _ \<Rightarrow> isWordChar c))"

definition wordMatchHere :: "char option \<Rightarrow> string \<Rightarrow> string \<Rightarrow> bool" where
  "wordMatchHere prev s term =
     (wordBoundaryAt prev s \<and> startsWith s term \<and>
      wordBoundaryAt (if term = [] then prev else Some (last term)) (drop (length term) s))"

fun wordBoundaryScan :: "char option \<Rightarrow> string \<Rightarrow> string \<Rightarrow> bool" where
  "wordBoundaryScan prev [] term = wordMatchHere prev [] term"
| "wordBoundaryScan prev (c # cs) term =
     (wordMatchHere prev (c # cs) term \<or> wordBoundaryScan (Some c) cs term)"

definition wordBoundaryTest :: "string \<Rightarrow> string \<Rightarrow> bool" where
  "wordBoundaryTest term s = wordBoundaryScan None s term"

text \<open>
  \<open>line.match(/"id":\s*"([^"]+)"/)\<close>: the first capture group of the leftmost match,
  \<open>None\<close> when the line has no match.
\<close>

definition idMatchHere :: "string \<Rightarrow> string option" where
  "idMatchHere s =
     (if startsWith s [CHR 0x22, CHR ''i'', CHR ''d'', CHR 0x22, CHR '':'']
      then (case dropWhile isSpaceChar (drop 5 s) of
              [] \<Rightarrow> None
            | q # r \<Rightarrow>
                if q = CHR 0x22 \<and> takeWhile (\<lambda>d. d \<noteq> CHR 0x22) r \<noteq> []
                   \<and> dropWhile (\<lambda>d. d \<noteq> CHR 0x22) r \<noteq> []
                then Some (takeWhile (\<lambda>d. d \<noteq> CHR 0x22) r) else None)
      else None)"

fun idMatch :: "string \<Rightarrow> string option" where
  "idMatch [] = None"
| "idMatch (c # cs) =
     (case idMatchHere (c # cs) of Some i \<Rightarrow> Some i | None \<Rightarrow> idMatch cs)"

text \<open>\<open>content.split("\n")\<close>: always at least one line.\<close>

fun split_lines :: "string \<Rightarrow> string list" where
  "split_lines [] = [[]]"
| "split_lines (c # cs) =
     (if c = CHR 0x0A then [] # split_lines cs
      else (case split_lines cs of [] \<Rightarrow> [[c]] | l # ls \<Rightarrow> (c # l) # ls))"

text \<open>\<open>xs.join(sep)\<close>.\<close>

fun join :: "string \<Rightarrow> string list \<Rightarrow> string" where
  "join sep [] = []"
| "join sep [x] = x"
| "join sep (x # y # ys) = x @ sep @ join sep (y # ys)"



section \<open>Records of the corpus\<close>

text \<open>
  The interface \<open>Tweet\<close>. A \<open>Date\<close> is its \<open>getTime()\<close>, milliseconds since the epoch
  (valid dates only, so the comparators of the sorts are consistent); the optional
  counters and the optional URL are \<open>option\<close>s, \<open>None\<close> for \<open>undefined\<close>.
\<close>

record tweet =
  tweet_id :: string
  tweet_text :: string
  timestamp :: int
  author :: string
  likes :: "int option"
  retweets :: "int option"
  replies :: "int option"
  url :: "string option"

text \<open>\<open>x || 0\<close> on an optional counter.\<close>

definition orZero :: "int option \<Rightarrow> int" where
  "orZero x = (case x of None \<Rightarrow> 0 | Some n \<Rightarrow> n)"

section \<open>extractSearchTerms\<close>

definition stopWords :: "string list" where
  "stopWords =
     [''the'', ''a'', ''an'', ''and'', ''or'', ''but'', ''in'', ''on'', ''at'', ''to'',
      ''for'', ''of'', ''with'', ''by'', ''is'', ''are'', ''was'', ''were'', ''be'',
      ''been'', ''have'', ''has'', ''had'', ''do'', ''does'', ''did'', ''will'',
      ''would'', ''could'', ''should'', ''may'', ''might'', ''can'', ''about'',
      ''what'', ''when'', ''where'', ''why'', ''how'', ''who'', ''which'', ''that'',
      ''this'', ''these'', ''those'', ''i'', ''you'', ''he'', ''she'', ''it'', ''we'',
      ''they'', ''me'', ''him'', ''her'', ''us'', ''them'']"

text \<open>The semantic expansions pushed for a lower-case message, rule after rule.\<close>

definition expandedTerms :: "string \<Rightarrow> string list" where
  "expandedTerms message =
     (if includes_str message ''release'' \<or> includes_str message ''launch''
         \<or> includes_str message ''drop'' \<or> includes_str message ''when''
      then [''introducing'', ''coming'', ''going live'', ''launch'', ''release'',
            ''drop'', ''available'', ''announcing'', ''debut'']
      else [])
     @ (if includes_str message ''ninja'' then [''ninja'', ''kurosun ninja''] else [])
     @ (if includes_str message ''samurai'' then [''samurai'', ''kurosun samurai''] else [])
     @ (if includes_str message ''hana'' then [''hana''] else [])"

text \<open>
  \<open>[...new Set(xs)]\<close>: the elements are added to the set one after the other, a set
  iterates in insertion order, and adding a member again changes nothing.
\<close>

fun setAdd :: "string list \<Rightarrow> string list \<Rightarrow> string list" where
  "setAdd members [] = members"
| "setAdd members (x # xs) =
     setAdd (if x \<in> set members then members else members @ [x]) xs"

definition spreadNewSet :: "string list \<Rightarrow> string list" where
  "spreadNewSet xs = setAdd [] xs"

definition keptWords :: "string \<Rightarrow> string list" where
  "keptWords message =
     filter (\<lambda>word. length word > 2 \<and> word \<notin> set stopWords) (wordMatches message)"

definition extractSearchTerms :: "string \<Rightarrow> string list" where
  "extractSearchTerms userMessage =
     (let message = toLowerCase userMessage;
          quotedPhrases = quotedMatches message;
          searchTerms = quotedPhrases @ expandedTerms message @ keptWords message
      in spreadNewSet searchTerms)"

section \<open>calculateRelevanceScore\<close>

text \<open>
  A JavaScript number is read as an exact rational: the score is the sum the code
  writes, without the rounding of doubles. \<open>now\<close> is \<open>Date.now()\<close>, one reading of
  the clock for the whole query. The sums of 100, 10 and 5 are exact in doubles as well.
  The two bonuses are rounded there: when the engagement total is not negative both are
  \<open>\<ge> 0\<close> and their sum is positive exactly when one of them is, which integer
  comparisons decide (a positive total, an age below 30 days); with a negative total
  and a recent record the rounded sum and the exact one can differ in sign. Statements
  about the sign of the bonuses are therefore made through the total and the age.
\<close>

definition phraseLoop :: "string \<Rightarrow> string list \<Rightarrow> rat \<Rightarrow> rat" where
  "phraseLoop tweetText quotedPhrases score =
     fold (\<lambda>phrase s. if includes_str tweetText phrase then s + 100 else s)
       quotedPhrases score"

definition termStep :: "string \<Rightarrow> string \<Rightarrow> rat \<Rightarrow> rat" where
  "termStep tweetText term s =
     (let termLower = toLowerCase term
      in if includes_str tweetText termLower
         then (let s1 = s + 10;
                   occurrences = countMatches termLower tweetText;
                   s2 = s1 + (of_nat occurrences - 1) * 5
               in if wordBoundaryTest termLower tweetText then s2 + 5 else s2)
         else s)"

definition termLoop :: "string \<Rightarrow> string list \<Rightarrow> rat \<Rightarrow> rat" where
  "termLoop tweetText searchTerms score = fold (termStep tweetText) searchTerms score"

text \<open>The score when the two loops are done, before the engagement and recency bonuses.\<close>

definition matchScore :: "tweet \<Rightarrow> string list \<Rightarrow> string \<Rightarrow> rat" where
  "matchScore t searchTerms originalMessage =
     (let tweetText = toLowerCase (tweet_text t);
          quotedPhrases = map toLowerCase (quotedMatches originalMessage)
      in termLoop tweetText searchTerms (phraseLoop tweetText quotedPhrases 0))"

definition engagementBonus :: "tweet \<Rightarrow> rat" where
  "engagementBonus t =
     (let engagement = orZero (likes t) + orZero (retweets t) + orZero (replies t)
      in min (of_int engagement / 10) 20)"

text \<open>The variable \<open>engagement\<close> of \<open>calculateRelevanceScore\<close>, on its own.\<close>

definition engagement :: "tweet \<Rightarrow> int" where
  "engagement t = orZero (likes t) + orZero (retweets t) + orZero (replies t)"

definition recencyBonus :: "int \<Rightarrow> tweet \<Rightarrow> rat" where
  "recencyBonus now t =
     (let daysSincePosted = of_int (now - timestamp t) / (1000 * 60 * 60 * 24)
      in if daysSincePosted < 30 then max 0 (2 - daysSincePosted / 15) else 0)"

definition calculateRelevanceScore :: "int \<Rightarrow> tweet \<Rightarrow> string list \<Rightarrow> string \<Rightarrow> rat" where
  "calculateRelevanceScore now t searchTerms originalMessage =
     matchScore t searchTerms originalMessage + engagementBonus t + recencyBonus now t"

section \<open>grepSearchJsonFile\<close>

text \<open>
  \<open>fs.readFileSync\<close> either returns the content of the raw store or throws (a value of
  \<open>js_error\<close>, the exception with its message); its outcome is a sum. The body of the
  \<open>try\<close> adds, for every line that contains a term, the identifiers found in the lines
  \<open>max 0 (i - 20) ..< min (length lines) (i + 20)\<close>. The \<open>catch\<close> logs and falls
  through to the \<open>return\<close> with the set as it is: empty, since the read is the first
  statement of the \<open>try\<close>.
\<close>

datatype js_error = JsError string

definition lineHasMatch :: "string list \<Rightarrow> string \<Rightarrow> bool" where
  "lineHasMatch searchTerms l =
     list_ex (\<lambda>term. includes_str (toLowerCase l) (toLowerCase term)) searchTerms"

definition contextIds :: "string list \<Rightarrow> nat \<Rightarrow> string list" where
  "contextIds lines i =
     (let contextStart = i - 20;
          contextEnd = min (length lines) (i + 20)
      in List.map_filter idMatch (take (contextEnd - contextStart) (drop contextStart lines)))"

definition grepLines :: "string list \<Rightarrow> string list \<Rightarrow> string set" where
  "grepLines searchTerms lines =
     fold (\<lambda>i found. if lineHasMatch searchTerms (lines ! i)
                      then found \<union> set (contextIds lines i) else found)
       [0 ..< length lines] {}"

definition grepSearchJsonFile :: "js_error + string \<Rightarrow> string list \<Rightarrow> string set" where
  "grepSearchJsonFile readFileSync searchTerms =
     (case readFileSync of
        Inl err \<Rightarrow> {}
      | Inr fileContent \<Rightarrow> grepLines searchTerms (split_lines fileContent))"

section \<open>deduplicateTweets and searchAllTweets\<close>

fun dedupLoop :: "string set \<Rightarrow> tweet list \<Rightarrow> tweet list" where
  "dedupLoop seen [] = []"
| "dedupLoop seen (t # ts) =
     (if tweet_id t \<in> seen then dedupLoop seen ts
      else t # dedupLoop (insert (tweet_id t) seen) ts)"

definition deduplicateTweets :: "tweet list \<Rightarrow> tweet list" where
  "deduplicateTweets tweets = dedupLoop {} tweets"

text \<open>
  The loop over \<open>allTweets\<close>: the score of \<open>calculateRelevanceScore\<close>, then the boost of
  50 for an identifier of \<open>grepMatches\<close>, then the test \<open>score > 0\<close> that pushes the
  pair onto \<open>searchResults\<close>.
\<close>

fun scoreLoop :: "(tweet \<Rightarrow> rat) \<Rightarrow> string set \<Rightarrow> tweet list \<Rightarrow> (tweet \<times> rat) list" where
  "scoreLoop score grepMatches [] = []"
| "scoreLoop score grepMatches (t # ts) =
     (let s0 = score t;
          s = (if tweet_id t \<in> grepMatches then s0 + 50 else s0)
      in if s > 0 then (t, s) # scoreLoop score grepMatches ts
         else scoreLoop score grepMatches ts)"

definition searchResults ::
  "js_error + string \<Rightarrow> int \<Rightarrow> string \<Rightarrow> tweet list \<Rightarrow> (tweet \<times> rat) list" where
  "searchResults readFileSync now userMessage allTweets =
     (let searchTerms = extractSearchTerms userMessage;
          grepMatches = grepSearchJsonFile readFileSync searchTerms
      in scoreLoop (\<lambda>t. calculateRelevanceScore now t searchTerms userMessage)
           grepMatches allTweets)"

text \<open>
  \<open>Array.prototype.sort\<close> is stable; with the comparator \<open>(a, b) => b.k - a.k\<close> it
  is the stable sort by descending key, \<open>sort_key\<close> on the negated key.
\<close>

definition topRelevantTweets ::
  "js_error + string \<Rightarrow> int \<Rightarrow> string \<Rightarrow> tweet list \<Rightarrow> tweet list" where
  "topRelevantTweets readFileSync now userMessage allTweets =
     map fst (take 150 (sort_key (\<lambda>r. - snd r)
       (searchResults readFileSync now userMessage allTweets)))"

definition combinedTweets ::
  "js_error + string \<Rightarrow> int \<Rightarrow> string \<Rightarrow> tweet list \<Rightarrow> tweet list" where
  "combinedTweets readFileSync now userMessage allTweets =
     (let recentTweets = take 75 allTweets
      in deduplicateTweets
           (recentTweets @ topRelevantTweets readFileSync now userMessage allTweets))"

definition searchAllTweets ::
  "js_error + string \<Rightarrow> int \<Rightarrow> string \<Rightarrow> tweet list \<Rightarrow> tweet list" where
  "searchAllTweets readFileSync now userMessage allTweets =
     take 200 (sort_key (\<lambda>t. - timestamp t)
       (combinedTweets readFileSync now userMessage allTweets))"


section \<open>buildSmartContext\<close>

text \<open>
  The context string, paired with the calls the body makes on the way, in order. The
  handle of the account and \<open>toLocaleDateString\<close> (which depends on the locale of the
  runtime) are parameters. \<open>`${n}`\<close> prints a number in decimal and \<open>undefined\<close> as
  the word.
\<close>

fun showNat :: "nat \<Rightarrow> string" where
  "showNat n =
     (if n < 10 then [char_of (48 + n)] else showNat (n div 10) @ [char_of (48 + n mod 10)])"

declare showNat.simps [simp del]

definition showInt :: "int \<Rightarrow> string" where
  "showInt n = (if n < 0 then CHR ''-'' # showNat (nat (- n)) else showNat (nat n))"

definition showCounter :: "int option \<Rightarrow> string" where
  "showCounter x = (case x of None \<Rightarrow> ''undefined'' | Some n \<Rightarrow> showInt n)"

datatype call =
  Call_searchAllTweets
| Call_extractSearchTerms
| Call_grepSearchJsonFile
| Call_calculateRelevanceScore
| Call_sort
| Call_deduplicateTweets

definition searchAllTweets_calls :: "tweet list \<Rightarrow> call list" where
  "searchAllTweets_calls allTweets =
     [Call_extractSearchTerms, Call_grepSearchJsonFile]
     @ replicate (length allTweets) Call_calculateRelevanceScore
     @ [Call_sort, Call_deduplicateTweets, Call_sort]"

definition renderTweet :: "(int \<Rightarrow> string) \<Rightarrow> tweet \<Rightarrow> string" where
  "renderTweet toLocaleDateString t =
     (let dateStr = toLocaleDateString (timestamp t);
          engagement = ''['' @ showCounter (likes t) @ '' likes, '' @ showCounter (retweets t)
                       @ '' RTs, '' @ showCounter (replies t) @ '' replies]'';
          urlStr = (case url t of None \<Rightarrow> [] | Some u \<Rightarrow> if u = [] then [] else '' URL: '' @ u)
      in ''['' @ dateStr @ ''] '' @ tweet_text t @ '' '' @ engagement @ urlStr)"

definition buildSmartContext ::
  "string \<Rightarrow> (int \<Rightarrow> string) \<Rightarrow> js_error + string \<Rightarrow> int \<Rightarrow> string \<Rightarrow> tweet list
     \<Rightarrow> string \<times> call list" where
  "buildSmartContext handle toLocaleDateString readFileSync now userMessage tweets =
     (if length tweets = 0 then (''No tweets available in memory.'', [])
      else
        (let relevantTweets = searchAllTweets readFileSync now userMessage tweets;
             tweetTexts = join [CHR 0x0A, CHR 0x0A]
                            (map (renderTweet toLocaleDateString) relevantTweets);
             totalTweets = showNat (length tweets);
             dateRange = toLocaleDateString (timestamp (last tweets)) @ '' to ''
                         @ toLocaleDateString (timestamp (hd tweets));
             searchTerms = extractSearchTerms userMessage;
             searchDebugInfo =
               (if length searchTerms > 0
                then [CHR 0x0A] @ ''Search terms used: '' @ join '', '' searchTerms else [])
         in (''Complete Twitter history from @'' @ handle @ '' ('' @ totalTweets
             @ '' total tweets from '' @ dateRange @ ''):'' @ [CHR 0x0A, CHR 0x0A]
             @ ''Searched through ALL '' @ totalTweets @ '' tweets - Including ''
             @ showNat (length relevantTweets) @ '' most relevant tweets'' @ searchDebugInfo
             @ '':'' @ [CHR 0x0A, CHR 0x0A] @ tweetTexts,
             Call_searchAllTweets # searchAllTweets_calls tweets @ [Call_extractSearchTerms])))"

section \<open>The service: loading and the read operations\<close>

text \<open>
  The fields of \<open>JsonTweet\<close> the loader reads, and the mutable fields of \<open>AIService\<close>.
  The environment holds what the service takes from outside: the two handles of the
  process environment, the outcome of reading and parsing the export file (\<open>Inl\<close> when
  \<open>readFile\<close> or \<open>JSON.parse\<close> throws), \<open>Date.now()\<close> and the parser of \<open>new Date(s)\<close>.
\<close>

record jsonTweet =
  json_id :: string
  created_at :: string
  full_text :: string
  screen_name :: string
  favorite_count :: int
  retweet_count :: int
  reply_count :: int

record env =
  mainHandle :: string
  retweetHandles :: "string list"
  readJson :: "js_error + jsonTweet list"
  dateNow :: int
  parseDate :: "string \<Rightarrow> int"

record service =
  tweets :: "tweet list"
  jsonData :: "jsonTweet list"
  isLoaded :: bool

definition getFallbackTweets :: "env \<Rightarrow> tweet list" where
  "getFallbackTweets e =
     [\<lparr>tweet_id = ''fallback_1'',
       tweet_text = ''Building amazing AI experiences with cutting-edge technology!'',
       timestamp = dateNow e, author = mainHandle e,
       likes = Some 0, retweets = Some 0, replies = Some 0, url = None\<rparr>,
      \<lparr>tweet_id = ''fallback_2'',
       tweet_text = ''Innovation in AI is accelerating faster than ever before.'',
       timestamp = dateNow e - 3600000, author = mainHandle e,
       likes = Some 0, retweets = Some 0, replies = Some 0, url = None\<rparr>]"

definition convertJsonTweetToTweet :: "env \<Rightarrow> jsonTweet \<Rightarrow> tweet" where
  "convertJsonTweetToTweet e jt =
     \<lparr>tweet_id = json_id jt,
      tweet_text = full_text jt,
      timestamp = parseDate e (created_at jt),
      author = (if screen_name jt = [] then mainHandle e else screen_name jt),
      likes = Some (favorite_count jt),
      retweets = Some (retweet_count jt),
      replies = Some (reply_count jt),
      url = Some (''https://twitter.com/'' @ mainHandle e @ ''/status/'' @ json_id jt)\<rparr>"

definition keepJsonTweet :: "env \<Rightarrow> jsonTweet \<Rightarrow> bool" where
  "keepJsonTweet e jt =
     (if full_text jt = [] then False
      else if \<not> startsWith (full_text jt) ''RT @'' then True
      else list_ex (\<lambda>handle. startsWith (toLowerCase (full_text jt))
                               (''rt @'' @ handle @ '':'')) (retweetHandles e))"

definition loadJsonData :: "env \<Rightarrow> service \<Rightarrow> service" where
  "loadJsonData e s =
     (if isLoaded s then s
      else (case readJson e of
              Inr parsed \<Rightarrow>
                s\<lparr>jsonData := parsed,
                  tweets := sort_key (\<lambda>t. - timestamp t)
                              (map (convertJsonTweetToTweet e) (filter (keepJsonTweet e) parsed)),
                  isLoaded := True\<rparr>
            | Inl err \<Rightarrow> s\<lparr>tweets := getFallbackTweets e, isLoaded := True\<rparr>))"

definition getAllTweets :: "env \<Rightarrow> service \<Rightarrow> tweet list \<times> service" where
  "getAllTweets e s = (let s1 = loadJsonData e s in (tweets s1, s1))"

definition getTweetsByKeyword :: "env \<Rightarrow> string \<Rightarrow> service \<Rightarrow> tweet list \<times> service" where
  "getTweetsByKeyword e keyword s =
     (let s1 = loadJsonData e s;
          searchTerm = toLowerCase keyword
      in (filter (\<lambda>t. includes_str (toLowerCase (tweet_text t)) searchTerm
                       \<or> includes_str (toLowerCase (author t)) searchTerm) (tweets s1),
          s1))"

text \<open>\<open>xs.slice(0, count)\<close>: a negative \<open>count\<close> is taken from the end.\<close>

definition slice0 :: "'a list \<Rightarrow> int \<Rightarrow> 'a list" where
  "slice0 xs count =
     (if count < 0 then take (nat (int (length xs) + count)) xs else take (nat count) xs)"

definition getRecentTweets :: "env \<Rightarrow> int \<Rightarrow> service \<Rightarrow> tweet list \<times> service" where
  "getRecentTweets e count s = (let s1 = loadJsonData e s in (slice0 (tweets s1) count, s1))"

record tweetStats =
  totalTweets :: nat
  oldestTweet :: "int option"
  newestTweet :: "int option"
  averageLength :: int

text \<open>
  \<open>this.tweets.sort(...)\<close> sorts the array of the service in place, ascending by
  timestamp, and returns that same array: the state that comes back holds the sorted
  list.
\<close>

definition getTweetStats :: "env \<Rightarrow> service \<Rightarrow> tweetStats \<times> service" where
  "getTweetStats e s =
     (let s1 = loadJsonData e s
      in if length (tweets s1) = 0
         then (\<lparr>totalTweets = 0, oldestTweet = None, newestTweet = None, averageLength = 0\<rparr>,
               s1)
         else
           (let sortedTweets = sort_key timestamp (tweets s1);
                s2 = s1\<lparr>tweets := sortedTweets\<rparr>;
                totalLength = sum_list (map (\<lambda>t. length (tweet_text t)) (tweets s2));
                avg = \<lfloor>(of_nat totalLength / of_nat (length (tweets s2)) :: rat) + 1 / 2\<rfloor>
            in (\<lparr>totalTweets = length (tweets s2),
                 oldestTweet = Some (timestamp (hd sortedTweets)),
                 newestTweet = Some (timestamp (last sortedTweets)),
                 averageLength = avg\<rparr>,
                s2)))"

definition clearMemory :: "service \<Rightarrow> service" where
  "clearMemory s = s\<lparr>tweets := [], jsonData := [], isLoaded := False\<rparr>"

text \<open>
  The first statements of \<open>generateResponse\<close>: the corpus is loaded, \<open>tweets || this.tweets\<close>
  picks the argument when one is given (an empty array is truthy), and the context is
  built. The call of the language model that follows is outside the model.
\<close>

definition generateResponse_context ::
  "env \<Rightarrow> (int \<Rightarrow> string) \<Rightarrow> js_error + string \<Rightarrow> string \<Rightarrow> tweet list option \<Rightarrow> service
     \<Rightarrow> string \<times> service" where
  "generateResponse_context e toLocaleDateString readFileSync userMessage arg s =
     (let s1 = loadJsonData e s;
          tweetsToUse = (case arg of Some given \<Rightarrow> given | None \<Rightarrow> tweets s1)
      in (fst (buildSmartContext (mainHandle e) toLocaleDateString readFileSync (dateNow e)
                 userMessage tweetsToUse),
          s1))"


text \<open>
  The value of the variable \<open>score\<close> of \<open>searchAllTweets\<close> when the loop tests
  \<open>score > 0\<close>: the relevance score, with the boost when the identifier is in
  \<open>grepMatches\<close>.
\<close>

definition finalScore :: "js_error + string \<Rightarrow> int \<Rightarrow> string \<Rightarrow> tweet \<Rightarrow> rat" where
  "finalScore readFileSync now userMessage t =
     calculateRelevanceScore now t (extractSearchTerms userMessage) userMessage
     + (if tweet_id t \<in> grepSearchJsonFile readFileSync (extractSearchTerms userMessage)
        then 50 else 0)"

section \<open>The term set as the specification words it\<close>

text \<open>
  The first occurrence of every element, in order: the reading of "deduplicated
  preserving the first occurrence".
\<close>

fun firstOccurrences :: "string list \<Rightarrow> string list" where
  "firstOccurrences [] = []"
| "firstOccurrences (x # xs) = x # firstOccurrences (filter (\<lambda>y. y \<noteq> x) xs)"

text \<open>
  The specification takes the word tokens from the unquoted portion of the query and
  describes a token as a contiguous alphanumeric run. \<open>unquotedPortion\<close> replaces every
  quoted phrase, quotes included, by a space; \<open>spec_TermSet\<close> follows the sentence of
  the specification with these two readings.
\<close>

definition isAlnumChar :: "char \<Rightarrow> bool" where
  "isAlnumChar c =
     (let n = (of_char c :: nat)
      in (48 \<le> n \<and> n \<le> 57) \<or> (65 \<le> n \<and> n \<le> 90) \<or> (97 \<le> n \<and> n \<le> 122))"

function unquotedPortion :: "string \<Rightarrow> string" where
  "unquotedPortion [] = []"
| "unquotedPortion (c # cs) =
     (if c = CHR 0x22 then
        (let body = takeWhile (\<lambda>d. d \<noteq> CHR 0x22) cs;
             rest = dropWhile (\<lambda>d. d \<noteq> CHR 0x22) cs
         in if rest = [] then c # cs
            else if body = [] then c # unquotedPortion rest
            else CHR '' '' # unquotedPortion (tl rest))
      else c # unquotedPortion cs)"
  by pat_completeness auto
termination
proof (relation "measure length", goal_cases)
  case 1
  show ?case by simp
next
  case (2 c cs body rest)
  have "length (dropWhile (\<lambda>d. d \<noteq> CHR 0x22) cs) \<le> length cs"
    by (rule length_dropWhile_le)
  with 2 show ?case by simp
next
  case (3 c cs body rest)
  have "length (dropWhile (\<lambda>d. d \<noteq> CHR 0x22) cs) \<le> length cs"
    by (rule length_dropWhile_le)
  with 3 show ?case by simp
next
  case (4 c cs)
  show ?case by simp
qed

definition spec_TermSet :: "string \<Rightarrow> string list" where
  "spec_TermSet query =
     (let message = toLowerCase query
      in firstOccurrences
           (quotedMatches message @ expandedTerms message
            @ filter (\<lambda>word. length word > 2 \<and> word \<notin> set stopWords)
                (maximalRuns isAlnumChar (unquotedPortion message))))"

section \<open>Stop-word queries and the window-only result\<close>



section \<open>Example inputs\<close>

text \<open>
  A record that is 115 days old at \<open>ex_now\<close>, has no engagement and does not contain the
  word of the query, and a raw store of two lines in which the identifier of the record
  stands next to that word.
\<close>

definition ex_now :: int where
  "ex_now = 10000000000"

definition ex_plain_tweet :: tweet where
  "ex_plain_tweet =
     \<lparr>tweet_id = ''7'', tweet_text = ''hello'', timestamp = 0, author = ''me'',
      likes = Some 0, retweets = Some 0, replies = Some 0, url = None\<rparr>"

definition ex_raw_store :: string where
  "ex_raw_store = ''{\"id\": \"7\",'' @ [CHR 0x0A] @ '' \"note\": \"ninja\"}''"

text \<open>
  A loaded service whose corpus holds two records, newest first, and an environment
  whose export file cannot be read, with a service that has not loaded yet.
\<close>

definition ex_newer :: tweet where
  "ex_newer =
     \<lparr>tweet_id = ''2'', tweet_text = ''second'', timestamp = 2000, author = ''me'',
      likes = Some 0, retweets = Some 0, replies = Some 0, url = None\<rparr>"

definition ex_older :: tweet where
  "ex_older =
     \<lparr>tweet_id = ''1'', tweet_text = ''first'', timestamp = 1000, author = ''me'',
      likes = Some 0, retweets = Some 0, replies = Some 0, url = None\<rparr>"

definition ex_loaded :: service where
  "ex_loaded = \<lparr>tweets = [ex_newer, ex_older], jsonData = [], isLoaded = True\<rparr>"

definition ex_env :: env where
  "ex_env =
     \<lparr>mainHandle = ''tekkus'', retweetHandles = [], readJson = Inl (JsError ''ENOENT''),
      dateNow = ex_now, parseDate = (\<lambda>s. 0)\<rparr>"

definition ex_fresh :: service where
  "ex_fresh = \<lparr>tweets = [], jsonData = [], isLoaded = False\<rparr>"







section \<open>Deduplication, the candidates and the size of the result\<close>

lemma dedupLoop_ids:
  "set (map tweet_id (dedupLoop seen ts)) = set (map tweet_id ts) - seen"
  by (induction ts arbitrary: seen) auto

lemma dedupLoop_distinct: "distinct (map tweet_id (dedupLoop seen ts))"
proof (induction ts arbitrary: seen)
  case Nil
  show ?case by simp
next
  case (Cons t ts)
  have "tweet_id t \<notin> set (map tweet_id (dedupLoop (insert (tweet_id t) seen) ts))"
    unfolding dedupLoop_ids by simp
  with Cons show ?case by simp
qed

lemma dedupLoop_subset: "set (dedupLoop seen ts) \<subseteq> set ts"
  by (induction ts arbitrary: seen) auto

lemma distinct_ids_sort_key:
  "distinct (map tweet_id xs) \<Longrightarrow> distinct (map tweet_id (sort_key f xs))"
  by (simp add: distinct_map)

lemma distinct_ids_take:
  "distinct (map tweet_id xs) \<Longrightarrow> distinct (map tweet_id (take n xs))"
  by (simp add: take_map [symmetric] distinct_take del: take_map)

lemma scoreLoop_eq:
  "scoreLoop score grepMatches ts =
     map (\<lambda>t. (t, score t + (if tweet_id t \<in> grepMatches then 50 else 0)))
       (filter (\<lambda>t. 0 < score t + (if tweet_id t \<in> grepMatches then 50 else 0)) ts)"
  by (induction ts) (auto simp: Let_def)

lemma searchResults_eq:
  "searchResults readFileSync now userMessage allTweets =
     map (\<lambda>t. (t, finalScore readFileSync now userMessage t))
       (filter (\<lambda>t. 0 < finalScore readFileSync now userMessage t) allTweets)"
  by (simp add: searchResults_def scoreLoop_eq finalScore_def Let_def)

text \<open>
  Claim C3. For every query, corpus, raw store and clock, the list that
  \<open>searchAllTweets\<close> returns has at most 200 records and no two of them share an
  identifier.
\<close>

theorem searchAllTweets_bounded_distinct:
  "length (searchAllTweets readFileSync now userMessage allTweets) \<le> 200
   \<and> distinct (map tweet_id (searchAllTweets readFileSync now userMessage allTweets))"
proof
  show "length (searchAllTweets readFileSync now userMessage allTweets) \<le> 200"
    by (simp add: searchAllTweets_def)
  have "distinct (map tweet_id (combinedTweets readFileSync now userMessage allTweets))"
    by (simp add: combinedTweets_def deduplicateTweets_def dedupLoop_distinct del: map_append)
  then show "distinct (map tweet_id (searchAllTweets readFileSync now userMessage allTweets))"
    unfolding searchAllTweets_def by (intro distinct_ids_take distinct_ids_sort_key)
qed

lemma sort_key_append_sorted:
  assumes "sorted (map f xs)" and "\<forall>x\<in>set xs. \<forall>y\<in>set ys. f x \<le> f y"
  shows "sort_key f (xs @ ys) = xs @ sort_key f ys"
  using assms
proof (induction xs)
  case Nil
  show ?case by simp
next
  case (Cons x xs)
  have "\<forall>z\<in>set (xs @ sort_key f ys). f x \<le> f z"
    using Cons.prems by auto
  then have "insort_key f x (xs @ sort_key f ys) = x # xs @ sort_key f ys"
    by (rule insort_is_Cons)
  with Cons show ?case by simp
qed

lemma dedupLoop_distinct_filter:
  "distinct (map tweet_id ts) \<Longrightarrow> dedupLoop seen ts = filter (\<lambda>t. tweet_id t \<notin> seen) ts"
proof (induction ts arbitrary: seen)
  case Nil
  show ?case by simp
next
  case (Cons t ts)
  have "\<forall>u\<in>set ts. tweet_id u \<noteq> tweet_id t"
    using Cons.prems by (metis distinct.simps(2) image_eqI list.simps(9) set_map)
  then have "filter (\<lambda>u. tweet_id u \<notin> insert (tweet_id t) seen) ts
        = filter (\<lambda>u. tweet_id u \<notin> seen) ts"
    by (intro filter_cong) auto
  with Cons show ?case by simp
qed

lemma dedupLoop_append:
  "dedupLoop seen (xs @ ys)
   = dedupLoop seen xs @ dedupLoop (seen \<union> tweet_id ` set xs) ys"
proof (induction xs arbitrary: seen)
  case Nil
  show ?case by simp
next
  case (Cons x xs)
  show ?case
  proof (cases "tweet_id x \<in> seen")
    case True
    then have "seen \<union> tweet_id ` set (x # xs) = seen \<union> tweet_id ` set xs"
      by auto
    with True show ?thesis by (simp add: Cons.IH)
  next
    case False
    have "insert (tweet_id x) seen \<union> tweet_id ` set xs = seen \<union> tweet_id ` set (x # xs)"
      by auto
    with False show ?thesis by (simp add: Cons.IH)
  qed
qed

lemma topRelevantTweets_subset:
  "set (topRelevantTweets readFileSync now userMessage allTweets) \<subseteq> set allTweets"
proof -
  have "set (map fst (take 150 (sort_key (\<lambda>r. - snd r)
          (searchResults readFileSync now userMessage allTweets))))
        \<subseteq> set (map fst (sort_key (\<lambda>r. - snd r)
          (searchResults readFileSync now userMessage allTweets)))"
    using set_take_subset by (metis image_mono set_map)
  also have "\<dots> \<subseteq> set allTweets"
    by (auto simp: searchResults_eq)
  finally show ?thesis by (simp add: topRelevantTweets_def)
qed

lemma combinedTweets_window:
  assumes "distinct (map tweet_id allTweets)"
  shows "combinedTweets readFileSync now userMessage allTweets
         = take 75 allTweets
           @ dedupLoop (tweet_id ` set (take 75 allTweets))
               (topRelevantTweets readFileSync now userMessage allTweets)"
proof -
  have "distinct (map tweet_id (take 75 allTweets))"
    using assms by (rule distinct_ids_take)
  then have "dedupLoop {} (take 75 allTweets) = take 75 allTweets"
    by (simp add: dedupLoop_distinct_filter)
  then show ?thesis
    by (simp add: combinedTweets_def deduplicateTweets_def dedupLoop_append Let_def)
qed

lemma outside_window:
  assumes "distinct (map tweet_id allTweets)" and "t \<in> set allTweets"
    and "tweet_id t \<notin> tweet_id ` set (take n allTweets)"
  shows "t \<in> set (drop n allTweets)"
proof -
  have "set allTweets = set (take n allTweets) \<union> set (drop n allTweets)"
    by (metis append_take_drop_id set_append)
  with assms show ?thesis by auto
qed

text \<open>
  Claim C4. When the corpus is sorted newest first (timestamps never increase along the
  list) and its identifiers are pairwise distinct, the result of \<open>searchAllTweets\<close>
  starts with the recency window, the first \<open>min 75 (length allTweets)\<close> records of the
  corpus in corpus order, for every query, raw store and clock; so each record of the
  window is in the result.
\<close>

theorem recency_window_survives:
  assumes newest_first: "sorted_wrt (\<lambda>a b. timestamp b \<le> timestamp a) allTweets"
    and ids: "distinct (map tweet_id allTweets)"
  shows "take (min 75 (length allTweets))
           (searchAllTweets readFileSync now userMessage allTweets) = take 75 allTweets
         \<and> set (take (min 75 (length allTweets)) allTweets)
             \<subseteq> set (searchAllTweets readFileSync now userMessage allTweets)"
proof -
  let ?W = "take 75 allTweets"
  let ?R = "dedupLoop (tweet_id ` set ?W)
              (topRelevantTweets readFileSync now userMessage allTweets)"
  let ?f = "\<lambda>t. - timestamp t"
  have sorted: "sorted (map ?f allTweets)"
    using newest_first by (simp add: sorted_map)
  have comb: "combinedTweets readFileSync now userMessage allTweets = ?W @ ?R"
    using ids by (rule combinedTweets_window)
  have split: "sorted (map ?f (?W @ drop 75 allTweets))"
    using sorted by simp
  have sortedW: "sorted (map ?f ?W)"
    and below: "\<forall>x\<in>set ?W. \<forall>y\<in>set (drop 75 allTweets). ?f x \<le> ?f y"
    using split unfolding map_append sorted_append by auto
  have R_old: "set ?R \<subseteq> set (drop 75 allTweets)"
  proof
    fix t
    assume t: "t \<in> set ?R"
    then have "t \<in> set (topRelevantTweets readFileSync now userMessage allTweets)"
      using dedupLoop_subset by blast
    then have in_corpus: "t \<in> set allTweets"
      using topRelevantTweets_subset by blast
    have "tweet_id t \<in> set (map tweet_id ?R)"
      using t by simp
    then have "tweet_id t \<notin> tweet_id ` set ?W"
      unfolding dedupLoop_ids by simp
    with ids in_corpus show "t \<in> set (drop 75 allTweets)"
      by (rule outside_window)
  qed
  have "sort_key ?f (?W @ ?R) = ?W @ sort_key ?f ?R"
    using sortedW below R_old by (intro sort_key_append_sorted) auto
  then have res: "searchAllTweets readFileSync now userMessage allTweets
                  = take 200 (?W @ sort_key ?f ?R)"
    by (simp add: searchAllTweets_def comb)
  have first: "take (min 75 (length allTweets))
                 (searchAllTweets readFileSync now userMessage allTweets) = ?W"
    unfolding res by (simp add: min_def)
  have "set ?W \<subseteq> set (searchAllTweets readFileSync now userMessage allTweets)"
    by (metis first set_take_subset)
  moreover have "take (min 75 (length allTweets)) allTweets = ?W"
    by (simp add: min_def)
  ultimately show ?thesis using first by simp
qed

theorem recency_window_survives_witness:
  "sorted_wrt (\<lambda>a b. timestamp b \<le> timestamp a) [ex_newer, ex_older]
   \<and> distinct (map tweet_id [ex_newer, ex_older])
   \<and> set [ex_newer, ex_older]
       \<subseteq> set (searchAllTweets (Inl (JsError ''ENOENT'')) ex_now ''ninja''
                 [ex_newer, ex_older])"
proof -
  have a: "sorted_wrt (\<lambda>a b. timestamp b \<le> timestamp a) [ex_newer, ex_older]"
    by (simp add: ex_newer_def ex_older_def)
  have b: "distinct (map tweet_id [ex_newer, ex_older])"
    by (simp add: ex_newer_def ex_older_def)
  from recency_window_survives [OF a b, of "Inl (JsError ''ENOENT'')" ex_now "''ninja''"]
  have "set [ex_newer, ex_older]
          \<subseteq> set (searchAllTweets (Inl (JsError ''ENOENT'')) ex_now ''ninja''
                    [ex_newer, ex_older])"
    by simp
  with a b show ?thesis by blast
qed

text \<open>
  Claim C2, as stated, fails: the boost is added before the test \<open>score > 0\<close>. The
  record \<open>ex_plain_tweet\<close> has relevance score 0 for the query \<open>ninja\<close>, its
  identifier is found by the scan of \<open>ex_raw_store\<close>, and it is a candidate with the
  score 50.
\<close>

theorem boost_makes_candidate_counterexample:
  "calculateRelevanceScore ex_now ex_plain_tweet (extractSearchTerms ''ninja'') ''ninja'' = 0
   \<and> searchResults (Inr ex_raw_store) ex_now ''ninja'' [ex_plain_tweet]
     = [(ex_plain_tweet, 50)]"
  by code_simp

text \<open>
  Claim C2, amended. The candidates are exactly the records of the corpus whose score
  after the boost is strictly positive, in corpus order and with that score; the boost
  of 50 goes to every record whose identifier is in the raw-match set, whatever its
  relevance score.
\<close>

theorem searchResults_candidates:
  "searchResults readFileSync now userMessage allTweets =
     map (\<lambda>t. (t, finalScore readFileSync now userMessage t))
       (filter (\<lambda>t. 0 < finalScore readFileSync now userMessage t) allTweets)
   \<and> finalScore readFileSync now userMessage t =
       calculateRelevanceScore now t (extractSearchTerms userMessage) userMessage
       + (if tweet_id t \<in> grepSearchJsonFile readFileSync (extractSearchTerms userMessage)
          then 50 else 0)"
  by (simp add: searchResults_def scoreLoop_eq finalScore_def Let_def)

text \<open>
  Claim C8. On the empty corpus \<open>buildSmartContext\<close> returns the fixed message, whatever
  the query, the raw store and the clock, and makes no call: neither
  \<open>searchAllTweets\<close> nor any of the term extraction, raw scan, scoring, sorting and
  deduplication it would run.
\<close>

theorem buildSmartContext_empty_corpus:
  "buildSmartContext handle toLocaleDateString readFileSync now userMessage []
   = (''No tweets available in memory.'', [])"
  by (simp add: buildSmartContext_def)

text \<open>
  Claim C9. When the read of the raw store throws, \<open>grepSearchJsonFile\<close> returns the
  empty set (its result is a set, not a sum: nothing is raised), and the query goes on:
  the candidates are the records with a positive relevance score, each with exactly
  that score, so none has the boost.
\<close>

theorem grepSearchJsonFile_read_failure:
  "grepSearchJsonFile (Inl err) searchTerms = {}
   \<and> searchResults (Inl err) now userMessage allTweets
     = map (\<lambda>t. (t, calculateRelevanceScore now t (extractSearchTerms userMessage) userMessage))
         (filter (\<lambda>t. 0 < calculateRelevanceScore now t (extractSearchTerms userMessage)
                           userMessage) allTweets)"
  by (simp add: grepSearchJsonFile_def searchResults_def scoreLoop_eq Let_def)


section \<open>Loading and the read operations\<close>

lemma loadJsonData_loaded: "isLoaded s \<Longrightarrow> loadJsonData e s = s"
  by (simp add: loadJsonData_def)

text \<open>
  Once the corpus is loaded, \<open>getAllTweets\<close>, \<open>getTweetsByKeyword\<close>, \<open>getRecentTweets\<close>
  and the context assembly of \<open>generateResponse\<close> return the service as they found it.
\<close>

theorem reads_keep_service:
  assumes "isLoaded s"
  shows "snd (getAllTweets e s) = s
         \<and> snd (getTweetsByKeyword e keyword s) = s
         \<and> snd (getRecentTweets e n s) = s
         \<and> snd (generateResponse_context e toLocaleDateString readFileSync userMessage arg s)
             = s"
  using assms
  by (simp add: getAllTweets_def getTweetsByKeyword_def getRecentTweets_def
      generateResponse_context_def loadJsonData_loaded Let_def)

theorem reads_keep_service_witness:
  "isLoaded ex_loaded
   \<and> snd (getAllTweets ex_env ex_loaded) = ex_loaded
   \<and> snd (getTweetsByKeyword ex_env ''first'' ex_loaded) = ex_loaded
   \<and> snd (getRecentTweets ex_env 10 ex_loaded) = ex_loaded"
proof -
  have a: "isLoaded ex_loaded"
    by (simp add: ex_loaded_def)
  from a reads_keep_service [OF a] show ?thesis by blast
qed

text \<open>The engagement bonus never exceeds 20.\<close>

theorem engagementBonus_capped: "engagementBonus t \<le> 20"
  by (simp add: engagementBonus_def Let_def)

text \<open>
  Claim C1 fails on \<open>getTweetStats\<close>: its \<open>this.tweets.sort(...)\<close> sorts the cached
  array in place, oldest first. On the loaded corpus \<open>[ex_newer, ex_older]\<close> the call
  leaves the service with \<open>[ex_older, ex_newer]\<close>.
\<close>

theorem getTweetStats_reorders_corpus:
  "tweets ex_loaded = [ex_newer, ex_older]
   \<and> tweets (snd (getTweetStats e ex_loaded)) = [ex_older, ex_newer]
   \<and> tweets (snd (getTweetStats e ex_loaded)) \<noteq> tweets ex_loaded"
  by (simp add: getTweetStats_def loadJsonData_def ex_loaded_def ex_newer_def ex_older_def
      Let_def)

text \<open>
  Claim C10. When the service has not loaded yet and reading or parsing the export file
  throws, \<open>loadJsonData\<close> returns a service (it raises nothing) whose corpus is the
  fallback list of exactly two records with the identifiers \<open>fallback_1\<close> and
  \<open>fallback_2\<close>, marked as loaded; \<open>getAllTweets\<close> returns a non-empty list, and the
  context that \<open>generateResponse\<close> builds from the cached corpus is not the
  empty-corpus message.
\<close>

theorem loadJsonData_failure_installs_fallback:
  assumes "\<not> isLoaded s" and "readJson e = Inl err"
  shows "tweets (loadJsonData e s) = getFallbackTweets e
         \<and> length (tweets (loadJsonData e s)) = 2
         \<and> map tweet_id (tweets (loadJsonData e s)) = [''fallback_1'', ''fallback_2'']
         \<and> isLoaded (loadJsonData e s)
         \<and> fst (getAllTweets e s) \<noteq> []
         \<and> fst (generateResponse_context e toLocaleDateString readFileSync userMessage None s)
             \<noteq> ''No tweets available in memory.''"
proof -
  have load: "loadJsonData e s = s\<lparr>tweets := getFallbackTweets e, isLoaded := True\<rparr>"
    using assms by (simp add: loadJsonData_def)
  have two: "length (getFallbackTweets e) = 2"
    and ids: "map tweet_id (getFallbackTweets e) = [''fallback_1'', ''fallback_2'']"
    by (simp_all add: getFallbackTweets_def)
  have nonempty: "getFallbackTweets e \<noteq> []"
    using two by auto
  have "fst (buildSmartContext h toLocaleDateString readFileSync now userMessage
               (getFallbackTweets e)) \<noteq> ''No tweets available in memory.''" for h now
    using two by (simp add: buildSmartContext_def Let_def)
  then show ?thesis
    using load two ids nonempty
    by (simp add: getAllTweets_def generateResponse_context_def Let_def)
qed

theorem loadJsonData_failure_installs_fallback_witness:
  "\<not> isLoaded ex_fresh \<and> readJson ex_env = Inl (JsError ''ENOENT'')
   \<and> tweets (loadJsonData ex_env ex_fresh) = getFallbackTweets ex_env
   \<and> length (tweets (loadJsonData ex_env ex_fresh)) = 2
   \<and> isLoaded (loadJsonData ex_env ex_fresh)
   \<and> fst (getAllTweets ex_env ex_fresh) \<noteq> []"
proof -
  have a: "\<not> isLoaded ex_fresh"
    by (simp add: ex_fresh_def)
  have b: "readJson ex_env = Inl (JsError ''ENOENT'')"
    by (simp add: ex_env_def)
  from a b loadJsonData_failure_installs_fallback [OF a b]
  show ?thesis by blast
qed

section \<open>The extracted term set\<close>

lemma setAdd_firstOccurrences:
  "setAdd members xs = members @ firstOccurrences (filter (\<lambda>y. y \<notin> set members) xs)"
proof (induction xs arbitrary: members)
  case Nil
  show ?case by simp
next
  case (Cons x xs)
  show ?case
  proof (cases "x \<in> set members")
    case True
    then show ?thesis by (simp add: Cons.IH)
  next
    case False
    have "filter (\<lambda>y. y \<notin> set (members @ [x])) xs
          = filter (\<lambda>y. y \<noteq> x) (filter (\<lambda>y. y \<notin> set members) xs)"
      by (auto intro: filter_cong)
    with False show ?thesis by (simp add: Cons.IH)
  qed
qed

lemma spreadNewSet_firstOccurrences: "spreadNewSet xs = firstOccurrences xs"
  by (simp add: spreadNewSet_def setAdd_firstOccurrences)

text \<open>
  Claim C6, as stated, fails: the code takes the word tokens from the whole lower-case
  query, the text inside the quotes included. For the query \<open>"hello world"\<close> it
  returns the phrase and its two words; the sentence of the specification yields the
  phrase alone.
\<close>

theorem quoted_words_counterexample:
  "extractSearchTerms ''\"hello world\"'' = [''hello world'', ''hello'', ''world'']
   \<and> spec_TermSet ''\"hello world\"'' = [''hello world'']
   \<and> extractSearchTerms ''\"hello world\"'' \<noteq> spec_TermSet ''\"hello world\"''"
  by code_simp

text \<open>
  Claim C6, amended. The extracted term set is the list of the quoted phrases of the
  lower-case query, then the expansion terms of every rule that fires, then the word
  tokens of the whole lower-case query (maximal runs of letters, digits and underscore,
  those inside quotes too) that are longer than 2 and not stop words, reduced to the
  first occurrence of each term.
\<close>

theorem extractSearchTerms_first_occurrences:
  "extractSearchTerms userMessage =
     firstOccurrences
       (quotedMatches (toLowerCase userMessage) @ expandedTerms (toLowerCase userMessage)
        @ filter (\<lambda>word. length word > 2 \<and> word \<notin> set stopWords)
            (maximalRuns isWordChar (toLowerCase userMessage)))"
  by (simp add: extractSearchTerms_def keptWords_def wordMatches_def
      spreadNewSet_firstOccurrences Let_def)

section \<open>Quoted phrases: the score and the selection\<close>















section \<open>The example corpora\<close>



















section \<open>Queries of stop words\<close>



















lemma recencyBonus_nonneg: "0 \<le> recencyBonus now t"
  by (simp add: recencyBonus_def Let_def)








end
